theory Spec2Isabelle
  imports Main "HOL-Library.AList" "HOL-Library.Word"
begin

unbundle bit_operations_syntax

section \<open>The authentication and session manager of the toolkit (auth_manager.py)\<close>

text \<open>
  The embedding follows \<^verbatim>\<open>src/src/auth_manager.py\<close>. Conventions:

  \<^item> A Python \<^verbatim>\<open>str\<close> is the list of its code points (\<open>pystr\<close>); \<open>py\<close> turns an
    ASCII literal of the source into such a list. \<^verbatim>\<open>str.encode()\<close> is the UTF-8
    encoding, which raises \<^verbatim>\<open>UnicodeEncodeError\<close> on a surrogate code point.
  \<^item> \<^verbatim>\<open>str.lower\<close> is a function of the Python library that rests on the case tables
    of Unicode; every operation that calls it takes it as the parameter \<open>lower\<close>, and
    the general statements hold for every such function. The concrete runs use
    \<open>lower_latin1\<close>, which is \<^verbatim>\<open>str.lower\<close> on strings of code points below 256, at
    such strings only.
  \<^item> A \<^verbatim>\<open>datetime\<close> is the number of microseconds since 0001-01-01T00:00:00, an
    \<open>int\<close>. A stored timestamp is a string in the source; the model keeps the two
    classes of strings the code distinguishes: the ISO rendering of a datetime
    (\<open>Iso t\<close>, for which \<^verbatim>\<open>fromisoformat\<close> returns \<open>t\<close>), and any other string
    (\<open>NotIso s\<close>, for which it raises \<^verbatim>\<open>ValueError\<close>).
  \<^item> A Python \<^verbatim>\<open>dict\<close> is an association list in insertion order with
    \<open>map_of\<close> for lookup, \<open>AList.update\<close> for item assignment and
    \<open>AList.delete\<close> for \<^verbatim>\<open>del\<close>.
  \<^item> A users or sessions file that parses holds either a JSON object (\<open>Mapping\<close>) or
    some other JSON value (\<open>Other b\<close>, with \<open>b\<close> its truth value: \<^verbatim>\<open>null\<close>,
    \<^verbatim>\<open>[]\<close>, \<^verbatim>\<open>0\<close>, \<^verbatim>\<open>""\<close> and \<^verbatim>\<open>false\<close> are false). The records of an object have
    exactly the fields that \<^verbatim>\<open>asdict(User)\<close> plus the password digest, and
    \<^verbatim>\<open>asdict(Session)\<close>, write, each of its declared type, so the defaults of
    \<^verbatim>\<open>.get('email', '')\<close> and \<^verbatim>\<open>.get('is_active', True)\<close> do not appear. The
    configuration file, when it parses, holds an object, and the configured session
    timeout is an integer number of hours.
  \<^item> Every source of nondeterminism is a parameter: each reading of the clock, each
    fresh token, the fresh UUID.
  \<^item> A backing file is absent, unparsable, or holds a value; a write replaces the
    whole file by the value written (the write itself is taken to succeed).
  \<^item> An exception that leaves a function is a result \<open>Inl e\<close>; an exception caught
    within it is the branch of its handler.
\<close>

subsection \<open>Python values and exceptions\<close>

datatype py_error =
  ValueError | OverflowError | FileNotFoundError | JSONDecodeError
| UnicodeEncodeError | TypeError | AttributeError

type_synonym pystr = "nat list"

definition py :: "string \<Rightarrow> pystr" where
  "py cs = map of_char cs"

datatype stamp = Iso int | NotIso pystr

fun fromisoformat :: "stamp \<Rightarrow> py_error + int" where
  "fromisoformat (Iso t) = Inr t"
| "fromisoformat (NotIso s) = Inl ValueError"

definition isoformat :: "int \<Rightarrow> stamp" where
  "isoformat t = Iso t"

text \<open>
  \<^verbatim>\<open>datetime.max\<close> is 9999-12-31T23:59:59.999999, the last microsecond of day
  number 3652059; a \<^verbatim>\<open>timedelta\<close> holds at most 999999999 days in either direction.
  \<^verbatim>\<open>now + timedelta(hours=h)\<close> raises \<^verbatim>\<open>OverflowError\<close> outside these ranges.
\<close>

definition us_per_hour :: int where
  "us_per_hour = 3600000000"

definition datetime_max :: int where
  "datetime_max = 3652059 * 24 * us_per_hour - 1"

definition timedelta_hours :: "int \<Rightarrow> py_error + int" where
  "timedelta_hours h =
     (if - 999999999 \<le> h div 24 \<and> h div 24 \<le> 999999999 then Inr (h * us_per_hour)
      else Inl OverflowError)"

definition datetime_add :: "int \<Rightarrow> int \<Rightarrow> py_error + int" where
  "datetime_add t d =
     (if 0 \<le> t + d \<and> t + d \<le> datetime_max then Inr (t + d) else Inl OverflowError)"

text \<open>
  \<^verbatim>\<open>s.encode()\<close>: UTF-8, one to four bytes per code point. A surrogate (U+D800 to
  U+DFFF) cannot be encoded. A \<^verbatim>\<open>str\<close> holds no value from 0x110000 on; the model
  refuses such a value like a surrogate.
\<close>

definition encodable :: "nat \<Rightarrow> bool" where
  "encodable c = (c < 0xD800 \<or> (0xDFFF < c \<and> c < 0x110000))"

definition utf8 :: "nat \<Rightarrow> string" where
  "utf8 c =
     (if c < 0x80 then [char_of c]
      else if c < 0x800 then [char_of (192 + c div 64), char_of (128 + c mod 64)]
      else if c < 0x10000 then
        [char_of (224 + c div 4096), char_of (128 + c div 64 mod 64), char_of (128 + c mod 64)]
      else
        [char_of (240 + c div 262144), char_of (128 + c div 4096 mod 64),
         char_of (128 + c div 64 mod 64), char_of (128 + c mod 64)])"

definition encode :: "pystr \<Rightarrow> py_error + string" where
  "encode s = (if list_all encodable s then Inr (concat (map utf8 s)) else Inl UnicodeEncodeError)"

subsection \<open>SHA-256 (hashlib.sha256(...).hexdigest())\<close>

text \<open>
  The digest of FIPS 180-4 over a byte string: padding to a multiple of 64 bytes, the
  message schedule of 64 words per block, 64 rounds per block, and the eight state
  words printed as 64 lower-case hexadecimal digits. Every block has 16 words, so the
  indices read by \<open>schedule\<close> are in range.
\<close>

type_synonym w32 = "32 word"

definition sha256_k :: "w32 list" where
  "sha256_k =
    [0x428A2F98, 0x71374491, 0xB5C0FBCF, 0xE9B5DBA5, 0x3956C25B, 0x59F111F1, 0x923F82A4, 0xAB1C5ED5,
     0xD807AA98, 0x12835B01, 0x243185BE, 0x550C7DC3, 0x72BE5D74, 0x80DEB1FE, 0x9BDC06A7, 0xC19BF174,
     0xE49B69C1, 0xEFBE4786, 0x0FC19DC6, 0x240CA1CC, 0x2DE92C6F, 0x4A7484AA, 0x5CB0A9DC, 0x76F988DA,
     0x983E5152, 0xA831C66D, 0xB00327C8, 0xBF597FC7, 0xC6E00BF3, 0xD5A79147, 0x06CA6351, 0x14292967,
     0x27B70A85, 0x2E1B2138, 0x4D2C6DFC, 0x53380D13, 0x650A7354, 0x766A0ABB, 0x81C2C92E, 0x92722C85,
     0xA2BFE8A1, 0xA81A664B, 0xC24B8B70, 0xC76C51A3, 0xD192E819, 0xD6990624, 0xF40E3585, 0x106AA070,
     0x19A4C116, 0x1E376C08, 0x2748774C, 0x34B0BCB5, 0x391C0CB3, 0x4ED8AA4A, 0x5B9CCA4F, 0x682E6FF3,
     0x748F82EE, 0x78A5636F, 0x84C87814, 0x8CC70208, 0x90BEFFFA, 0xA4506CEB, 0xBEF9A3F7, 0xC67178F2]"

type_synonym sha_state = "w32 \<times> w32 \<times> w32 \<times> w32 \<times> w32 \<times> w32 \<times> w32 \<times> w32"

definition sha256_init :: sha_state where
  "sha256_init =
    (0x6A09E667, 0xBB67AE85, 0x3C6EF372, 0xA54FF53A, 0x510E527F, 0x9B05688C, 0x1F83D9AB, 0x5BE0CD19)"

definition small_sigma0 :: "w32 \<Rightarrow> w32" where
  "small_sigma0 x = word_rotr 7 x XOR word_rotr 18 x XOR drop_bit 3 x"

definition small_sigma1 :: "w32 \<Rightarrow> w32" where
  "small_sigma1 x = word_rotr 17 x XOR word_rotr 19 x XOR drop_bit 10 x"

definition big_sigma0 :: "w32 \<Rightarrow> w32" where
  "big_sigma0 x = word_rotr 2 x XOR word_rotr 13 x XOR word_rotr 22 x"

definition big_sigma1 :: "w32 \<Rightarrow> w32" where
  "big_sigma1 x = word_rotr 6 x XOR word_rotr 11 x XOR word_rotr 25 x"

definition ch :: "w32 \<Rightarrow> w32 \<Rightarrow> w32 \<Rightarrow> w32" where
  "ch x y z = (x AND y) XOR (NOT x AND z)"

definition maj :: "w32 \<Rightarrow> w32 \<Rightarrow> w32 \<Rightarrow> w32" where
  "maj x y z = (x AND y) XOR (x AND z) XOR (y AND z)"

fun schedule :: "nat \<Rightarrow> w32 list \<Rightarrow> w32 list" where
  "schedule 0 ws = ws"
| "schedule (Suc n) ws =
     (let t = length ws in
      schedule n (ws @ [small_sigma1 (ws ! (t - 2)) + ws ! (t - 7) +
                        small_sigma0 (ws ! (t - 15)) + ws ! (t - 16)]))"

fun sha_round :: "sha_state \<Rightarrow> w32 \<times> w32 \<Rightarrow> sha_state" where
  "sha_round (a, b, c, d, e, f, g, h) (k, w) =
     (let t1 = h + big_sigma1 e + ch e f g + k + w;
          t2 = big_sigma0 a + maj a b c
      in (t1 + t2, a, b, c, d + t1, e, f, g))"

fun sha_add :: "sha_state \<Rightarrow> sha_state \<Rightarrow> sha_state" where
  "sha_add (a, b, c, d, e, f, g, h) (a', b', c', d', e', f', g', h') =
     (a + a', b + b', c + c', d + d', e + e', f + f', g + g', h + h')"

definition be_word :: "char list \<Rightarrow> w32" where
  "be_word bs = foldl (\<lambda>acc b. acc * 256 + of_nat (of_char b)) 0 bs"

fun chunks :: "nat \<Rightarrow> 'a list \<Rightarrow> 'a list list" where
  "chunks n xs = (if n = 0 \<or> xs = [] then [] else take n xs # chunks n (drop n xs))"

declare chunks.simps [simp del]

definition compress :: "sha_state \<Rightarrow> char list \<Rightarrow> sha_state" where
  "compress st block =
     sha_add st (foldl sha_round st (zip sha256_k (schedule 48 (map be_word (chunks 4 block)))))"

definition be_bytes :: "nat \<Rightarrow> int \<Rightarrow> char list" where
  "be_bytes n x = map (\<lambda>i. char_of (x div 256 ^ (n - 1 - i))) [0..<n]"

definition pad :: "char list \<Rightarrow> char list" where
  "pad m =
     m @ [char_of (128::nat)] @ replicate ((119 - length m mod 64) mod 64) (char_of (0::nat)) @
     be_bytes 8 (8 * int (length m) mod 2 ^ 64)"

definition hex_digit :: "w32 \<Rightarrow> char" where
  "hex_digit n = ''0123456789abcdef'' ! unat (n AND 15)"

definition hex32 :: "w32 \<Rightarrow> string" where
  "hex32 w = map (\<lambda>i. hex_digit (drop_bit (28 - 4 * i) w)) [0..<8]"

fun hexdigest :: "sha_state \<Rightarrow> string" where
  "hexdigest (a, b, c, d, e, f, g, h) = concat (map hex32 [a, b, c, d, e, f, g, h])"

definition sha256 :: "string \<Rightarrow> string" where
  "sha256 m = hexdigest (foldl compress sha256_init (chunks 64 (pad m)))"

subsection \<open>Records: User, Session, configuration\<close>

text \<open>
  A stored user is \<^verbatim>\<open>asdict(User)\<close> extended by \<open>password_hash\<close>; a stored session
  is \<^verbatim>\<open>asdict(Session)\<close>. The fields of a session that share a name with a field
  of a user carry the prefix \<open>s_\<close>. \<open>last_login\<close> starts as the empty string.
\<close>

datatype pref = PrefStr pystr | PrefList "pystr list"

type_synonym preferences = "(pystr \<times> pref) list"

record user =
  user_id :: pystr
  email :: pystr
  name :: pystr
  role :: pystr
  created_at :: stamp
  last_login :: stamp
  is_active :: bool
  preferences :: preferences
  password_hash :: pystr

record session =
  session_id :: pystr
  s_user_id :: pystr
  s_created_at :: stamp
  expires_at :: stamp
  last_active :: stamp
  ip_address :: pystr
  user_agent :: pystr
  s_is_active :: bool

type_synonym users = "(pystr \<times> user) list"

type_synonym sessions = "(pystr \<times> session) list"

record config =
  session_timeout_hours :: int
  max_sessions_per_user :: int
  require_strong_passwords :: bool
  allow_registration :: bool
  default_role :: pystr
  enable_guest_mode :: bool
  secret_key :: pystr

text \<open>The configuration file is a JSON object in which any of the keys may be missing.\<close>

record stored_config =
  sc_session_timeout_hours :: "int option"
  sc_max_sessions_per_user :: "int option"
  sc_require_strong_passwords :: "bool option"
  sc_allow_registration :: "bool option"
  sc_default_role :: "pystr option"
  sc_enable_guest_mode :: "bool option"
  sc_secret_key :: "pystr option"

definition default_preferences :: preferences where
  "default_preferences =
     [(py ''theme'', PrefStr (py ''light'')),
      (py ''default_experience'', PrefStr (py ''learn_and_do'')),
      (py ''favorite_tools'', PrefList []),
      (py ''dashboard_layout'', PrefStr (py ''default''))]"

subsection \<open>The backing files\<close>

text \<open>
  What \<^verbatim>\<open>json.load\<close> returns for a users or sessions file: an object, or another
  JSON value, of which only the truth value matters to the code.
\<close>

datatype 'a json_value = Mapping 'a | Other bool

fun truthy :: "('k \<times> 'v) list json_value \<Rightarrow> bool" where
  "truthy (Mapping m) = (m \<noteq> [])"
| "truthy (Other b) = b"

datatype 'a backing_file = Missing | Corrupt | Holds 'a

record files =
  users_file :: "users json_value backing_file"
  sessions_file :: "sessions json_value backing_file"
  config_file :: "stored_config backing_file"

fun file_exists :: "'a backing_file \<Rightarrow> bool" where
  "file_exists Missing = False"
| "file_exists Corrupt = True"
| "file_exists (Holds x) = True"

text \<open>\<^verbatim>\<open>json.load(open(file))\<close>: the value held, or the exception raised.\<close>

fun json_load :: "'a backing_file \<Rightarrow> py_error + 'a" where
  "json_load Missing = Inl FileNotFoundError"
| "json_load Corrupt = Inl JSONDecodeError"
| "json_load (Holds x) = Inr x"

definition default_config :: "pystr \<Rightarrow> config" where
  "default_config token =
     \<lparr>session_timeout_hours = 24, max_sessions_per_user = 5,
      require_strong_passwords = False, allow_registration = True,
      default_role = py ''pm'', enable_guest_mode = True, secret_key = token\<rparr>"

definition dump_config :: "config \<Rightarrow> stored_config" where
  "dump_config c =
     \<lparr>sc_session_timeout_hours = Some (session_timeout_hours c),
      sc_max_sessions_per_user = Some (max_sessions_per_user c),
      sc_require_strong_passwords = Some (require_strong_passwords c),
      sc_allow_registration = Some (allow_registration c),
      sc_default_role = Some (default_role c),
      sc_enable_guest_mode = Some (enable_guest_mode c),
      sc_secret_key = Some (secret_key c)\<rparr>"

text \<open>The loop that fills every key missing from the stored object with its default.\<close>

definition merge_defaults :: "stored_config \<Rightarrow> config \<Rightarrow> config" where
  "merge_defaults c d =
     \<lparr>session_timeout_hours = case_option (session_timeout_hours d) id (sc_session_timeout_hours c),
      max_sessions_per_user = case_option (max_sessions_per_user d) id (sc_max_sessions_per_user c),
      require_strong_passwords =
        case_option (require_strong_passwords d) id (sc_require_strong_passwords c),
      allow_registration = case_option (allow_registration d) id (sc_allow_registration c),
      default_role = case_option (default_role d) id (sc_default_role c),
      enable_guest_mode = case_option (enable_guest_mode d) id (sc_enable_guest_mode c),
      secret_key = case_option (secret_key d) id (sc_secret_key c)\<rparr>"

text \<open>
  \<open>load_auth_config\<close>: \<open>token\<close> is the value of \<^verbatim>\<open>secrets.token_urlsafe(32)\<close>
  drawn for the default configuration. An exception in the \<^verbatim>\<open>try\<close> block (the file
  exists and does not parse) returns the defaults and writes nothing.
\<close>

definition load_auth_config :: "files \<Rightarrow> pystr \<Rightarrow> config \<times> files" where
  "load_auth_config fs token =
     (let dflt = default_config token in
      if file_exists (config_file fs) then
        (case json_load (config_file fs) of
           Inr c \<Rightarrow> (merge_defaults c dflt, fs)
         | Inl e \<Rightarrow> (dflt, fs))
      else (dflt, fs\<lparr>config_file := Holds (dump_config dflt)\<rparr>))"

text \<open>
  \<open>load_users\<close> returns what \<^verbatim>\<open>json.load\<close> returned, whatever it is, and the empty
  dictionary when the file is absent or does not parse.
\<close>

definition load_users :: "files \<Rightarrow> users json_value" where
  "load_users fs =
     (if file_exists (users_file fs) then
        (case json_load (users_file fs) of Inr v \<Rightarrow> v | Inl e \<Rightarrow> Mapping [])
      else Mapping [])"

definition save_users :: "files \<Rightarrow> users \<Rightarrow> files" where
  "save_users fs us = fs\<lparr>users_file := Holds (Mapping us)\<rparr>"

text \<open>
  \<open>cleanup_expired_sessions\<close>: the loop over \<^verbatim>\<open>sessions.items()\<close> with the
  dictionary \<open>active_sessions\<close> as accumulator; \<open>now\<close> is the clock reading taken at
  its start. A record whose \<open>expires_at\<close> does not parse is skipped.
\<close>

fun cleanup_loop :: "int \<Rightarrow> sessions \<Rightarrow> sessions \<Rightarrow> sessions" where
  "cleanup_loop now active_sessions [] = active_sessions"
| "cleanup_loop now active_sessions ((sid, session_data) # rest) =
     (case fromisoformat (expires_at session_data) of
        Inl e \<Rightarrow> cleanup_loop now active_sessions rest
      | Inr expires \<Rightarrow>
          if expires > now \<and> s_is_active session_data
          then cleanup_loop now (AList.update sid session_data active_sessions) rest
          else cleanup_loop now active_sessions rest)"

text \<open>
  On a value that is no object, \<^verbatim>\<open>sessions.items()\<close> raises \<^verbatim>\<open>AttributeError\<close>;
  the call stands inside the \<^verbatim>\<open>try\<close> block of \<open>load_sessions\<close>.
\<close>

fun cleanup_expired_sessions :: "sessions json_value \<Rightarrow> int \<Rightarrow> py_error + sessions" where
  "cleanup_expired_sessions (Mapping ss) now = Inr (cleanup_loop now [] ss)"
| "cleanup_expired_sessions (Other b) now = Inl AttributeError"

definition load_sessions :: "files \<Rightarrow> int \<Rightarrow> sessions" where
  "load_sessions fs now =
     (if file_exists (sessions_file fs) then
        (case json_load (sessions_file fs) of
           Inr v \<Rightarrow> (case cleanup_expired_sessions v now of Inr ss \<Rightarrow> ss | Inl e \<Rightarrow> [])
         | Inl e \<Rightarrow> [])
      else [])"

definition save_sessions :: "files \<Rightarrow> sessions \<Rightarrow> files" where
  "save_sessions fs ss = fs\<lparr>sessions_file := Holds (Mapping ss)\<rparr>"

text \<open>\<open>hash_password\<close>: \<^verbatim>\<open>hashlib.sha256((password + salt).encode()).hexdigest()\<close>.\<close>

definition hash_password :: "config \<Rightarrow> pystr \<Rightarrow> py_error + pystr" where
  "hash_password cfg password =
     (case encode (password @ secret_key cfg) of
        Inl e \<Rightarrow> Inl e
      | Inr bytes \<Rightarrow> Inr (py (sha256 bytes)))"

subsection \<open>The manager: construction and user accounts\<close>

text \<open>
  \<open>initialize_default_users\<close>; \<open>now\<close> is the clock reading that
  \<^verbatim>\<open>User.__post_init__\<close> stores as \<open>created_at\<close>. The test is \<^verbatim>\<open>if not users\<close> on
  whatever \<open>load_users\<close> returned; the item assignment raises \<^verbatim>\<open>TypeError\<close> on a
  value that is no object.
\<close>

definition default_user :: "pystr \<Rightarrow> int \<Rightarrow> user" where
  "default_user digest now =
     \<lparr>user_id = py ''default_pm'', email = py ''pm@aipmtoolkit.local'',
      name = py ''Product Manager'', role = py ''pm'', created_at = isoformat now,
      last_login = NotIso [], is_active = True, preferences = default_preferences,
      password_hash = digest\<rparr>"

definition initialize_default_users :: "config \<Rightarrow> files \<Rightarrow> int \<Rightarrow> py_error + files" where
  "initialize_default_users cfg fs now =
     (let users = load_users fs in
      if \<not> truthy users then
        (case hash_password cfg (py ''aipm2025'') of
           Inl e \<Rightarrow> Inl e
         | Inr digest \<Rightarrow>
             (case users of
                Mapping us \<Rightarrow>
                  Inr (save_users fs (AList.update (py ''default_pm'') (default_user digest now) us))
              | Other b \<Rightarrow> Inl TypeError))
      else Inr fs)"

text \<open>
  \<^verbatim>\<open>AuthenticationManager.__init__\<close>: the configuration kept in memory, or the
  exception that ends the construction, and the files as they are left.
\<close>

definition init_manager :: "files \<Rightarrow> pystr \<Rightarrow> int \<Rightarrow> (py_error + config) \<times> files" where
  "init_manager fs token now =
     (case load_auth_config fs token of
        (cfg, fs1) \<Rightarrow>
          (case initialize_default_users cfg fs1 now of
             Inl e \<Rightarrow> (Inl e, fs1)
           | Inr fs2 \<Rightarrow> (Inr cfg, fs2)))"

datatype create_result = CreateFailed pystr | Created pystr pystr

definition email_matches :: "(pystr \<Rightarrow> pystr) \<Rightarrow> pystr \<Rightarrow> pystr \<times> user \<Rightarrow> bool" where
  "email_matches lower e entry = (lower (email (snd entry)) = lower e)"

text \<open>
  \<open>create_user\<close>; \<open>uuid4\<close> is the value of \<^verbatim>\<open>str(uuid.uuid4())\<close>, \<open>now\<close> the clock
  reading stored as \<open>created_at\<close>. The result is the returned dictionary, or the
  exception raised, and the files. \<^verbatim>\<open>users.values()\<close> raises \<^verbatim>\<open>AttributeError\<close> on a
  value that is no object; the digest is computed after the scan for the email.
\<close>

definition create_user ::
  "(pystr \<Rightarrow> pystr) \<Rightarrow> config \<Rightarrow> files \<Rightarrow> pystr \<Rightarrow> int \<Rightarrow> pystr \<Rightarrow> pystr \<Rightarrow> pystr \<Rightarrow> pystr \<Rightarrow>
   (py_error + create_result) \<times> files" where
  "create_user lower cfg fs uuid4 now email' name' password role' =
     (case load_users fs of
        Other b \<Rightarrow> (Inl AttributeError, fs)
      | Mapping us \<Rightarrow>
          if list_ex (email_matches lower email') us
          then (Inr (CreateFailed (py ''User with this email already exists'')), fs)
          else
            (case hash_password cfg password of
               Inl e \<Rightarrow> (Inl e, fs)
             | Inr digest \<Rightarrow>
                 (let u = \<lparr>user_id = uuid4, email = email', name = name', role = role',
                           created_at = isoformat now, last_login = NotIso [], is_active = True,
                           preferences = default_preferences, password_hash = digest\<rparr>
                  in (Inr (Created uuid4 (py ''User '' @ name' @ py '' created successfully'')),
                      save_users fs (AList.update uuid4 u us)))))"

subsection \<open>Sessions: login, validation, guests\<close>

record public_user =
  pu_user_id :: pystr
  pu_email :: pystr
  pu_name :: pystr
  pu_role :: pystr
  pu_preferences :: preferences

definition public_view :: "user \<Rightarrow> public_user" where
  "public_view u =
     \<lparr>pu_user_id = user_id u, pu_email = email u, pu_name = name u, pu_role = role u,
      pu_preferences = preferences u\<rparr>"

text \<open>
  The dictionaries returned by \<open>authenticate_user\<close> and \<open>guest_session\<close>:
  a failure with its \<open>error\<close>; a login with \<open>session_id\<close>, \<open>user\<close> and \<open>expires_at\<close>;
  a guest login, which carries \<open>is_guest: True\<close> in addition.
\<close>

datatype auth_result =
  AuthFailed pystr
| Authenticated pystr public_user stamp
| GuestSession pystr public_user stamp

text \<open>
  \<open>authenticate_user\<close>. Parameters beyond the source's: \<open>sid\<close> is the fresh token,
  \<open>now\<close> the clock reading of the function itself, \<open>t_load\<close> the later reading
  taken inside \<open>load_sessions\<close>. \<^verbatim>\<open>users.items()\<close> raises \<^verbatim>\<open>AttributeError\<close> on a
  value that is no object; the digest of the password is computed once a record with the
  email is found, and an \<^verbatim>\<open>OverflowError\<close> of the expiry computation leaves the
  function before anything is written.

  \<open>user_data\<close> is the very dictionary held in \<open>users\<close>: setting \<open>last_login\<close>
  changes the entry under its key \<open>uid\<close>, and the assignment that follows stores the
  same dictionary under the key \<open>user_data['user_id']\<close>.
\<close>

definition authenticate_user ::
  "(pystr \<Rightarrow> pystr) \<Rightarrow> config \<Rightarrow> files \<Rightarrow> pystr \<Rightarrow> int \<Rightarrow> int \<Rightarrow> pystr \<Rightarrow> pystr \<Rightarrow> pystr \<Rightarrow> pystr \<Rightarrow>
   (py_error + auth_result) \<times> files" where
  "authenticate_user lower cfg fs sid now t_load email' password ip ua =
     (case load_users fs of
        Other b \<Rightarrow> (Inl AttributeError, fs)
      | Mapping us \<Rightarrow>
          (case find (email_matches lower email') us of
             None \<Rightarrow> (Inr (AuthFailed (py ''Invalid email or password'')), fs)
           | Some (uid, user_data) \<Rightarrow>
               (case hash_password cfg password of
                  Inl e \<Rightarrow> (Inl e, fs)
                | Inr digest \<Rightarrow>
                    if digest \<noteq> password_hash user_data
                    then (Inr (AuthFailed (py ''Invalid email or password'')), fs)
                    else if \<not> is_active user_data
                    then (Inr (AuthFailed (py ''User account is disabled'')), fs)
                    else
                      (case timedelta_hours (session_timeout_hours cfg) of
                         Inl e \<Rightarrow> (Inl e, fs)
                       | Inr delta \<Rightarrow>
                           (case datetime_add now delta of
                              Inl e \<Rightarrow> (Inl e, fs)
                            | Inr expires \<Rightarrow>
                                (let s = \<lparr>session_id = sid, s_user_id = user_id user_data,
                                          s_created_at = isoformat now,
                                          expires_at = isoformat expires,
                                          last_active = isoformat now, ip_address = ip,
                                          user_agent = ua, s_is_active = True\<rparr>;
                                     fs1 = save_sessions fs
                                             (AList.update sid s (load_sessions fs t_load));
                                     user_data' = user_data\<lparr>last_login := isoformat now\<rparr>;
                                     us' = AList.update (user_id user_data') user_data'
                                             (AList.update uid user_data' us);
                                     fs2 = save_users fs1 us'
                                 in (Inr (Authenticated sid (public_view user_data')
                                            (isoformat expires)),
                                     fs2)))))))"

record session_view =
  sv_session_id :: pystr
  sv_created_at :: stamp
  sv_expires_at :: stamp
  sv_last_active :: stamp

datatype validation = Invalid pystr | Valid public_user session_view

text \<open>
  \<open>validate_session\<close> reads the clock three times: \<open>t_load\<close> inside
  \<open>load_sessions\<close>, \<open>t_check\<close> for the comparison with the expiry, \<open>t_touch\<close>
  for the new \<open>last_active\<close>. \<^verbatim>\<open>users.get\<close> raises \<^verbatim>\<open>AttributeError\<close> on a value
  that is no object, after the sessions have been saved.
\<close>

definition validate_session ::
  "config \<Rightarrow> files \<Rightarrow> pystr \<Rightarrow> int \<Rightarrow> int \<Rightarrow> int \<Rightarrow> (py_error + validation) \<times> files" where
  "validate_session cfg fs sid t_load t_check t_touch =
     (if sid = [] then (Inr (Invalid (py ''No session ID provided'')), fs)
      else
        (let ss = load_sessions fs t_load in
         case map_of ss sid of
           None \<Rightarrow> (Inr (Invalid (py ''Session not found'')), fs)
         | Some session_data \<Rightarrow>
             (case fromisoformat (expires_at session_data) of
                Inl e \<Rightarrow> (Inr (Invalid (py ''Invalid session data'')), fs)
              | Inr expires \<Rightarrow>
                  if t_check > expires
                  then (Inr (Invalid (py ''Session expired'')),
                        save_sessions fs (AList.delete sid ss))
                  else
                    (let session_data' = session_data\<lparr>last_active := isoformat t_touch\<rparr>;
                         fs1 = save_sessions fs (AList.update sid session_data' ss)
                     in case load_users fs1 of
                          Other b \<Rightarrow> (Inl AttributeError, fs1)
                        | Mapping us \<Rightarrow>
                            (case map_of us (s_user_id session_data') of
                               None \<Rightarrow>
                                 (Inr (Invalid (py ''User account not found or disabled'')), fs1)
                             | Some user_data \<Rightarrow>
                                 if \<not> is_active user_data
                                 then (Inr (Invalid (py ''User account not found or disabled'')),
                                       fs1)
                                 else
                                   (Inr (Valid (public_view user_data)
                                      \<lparr>sv_session_id = sid,
                                       sv_created_at = s_created_at session_data',
                                       sv_expires_at = expires_at session_data',
                                       sv_last_active = last_active session_data'\<rparr>),
                                    fs1))))))"

text \<open>\<^verbatim>\<open>str(n)\<close> for an integer, and the guest identifier \<^verbatim>\<open>f"guest_{int(time.time())}"\<close>.\<close>

fun digits :: "nat \<Rightarrow> pystr" where
  "digits n = (if n < 10 then [48 + n] else digits (n div 10) @ [48 + n mod 10])"

declare digits.simps [simp del]

definition str_int :: "int \<Rightarrow> pystr" where
  "str_int i = (if i < 0 then 45 # digits (nat (- i)) else digits (nat i))"

definition guest_id :: "int \<Rightarrow> pystr" where
  "guest_id epoch = py ''guest_'' @ str_int epoch"

definition guest_user :: "int \<Rightarrow> public_user" where
  "guest_user epoch =
     \<lparr>pu_user_id = guest_id epoch, pu_email = py ''guest@aipmtoolkit.local'',
      pu_name = py ''Guest User'', pu_role = py ''viewer'',
      pu_preferences =
        [(py ''theme'', PrefStr (py ''light'')),
         (py ''default_experience'', PrefStr (py ''just_do_it''))]\<rparr>"

text \<open>
  \<open>guest_session\<close>; \<open>epoch\<close> is \<^verbatim>\<open>int(time.time())\<close>, \<open>sid\<close> the fresh token,
  \<open>now\<close> and \<open>t_load\<close> the two clock readings as in \<open>authenticate_user\<close>.
\<close>

definition guest_session ::
  "config \<Rightarrow> files \<Rightarrow> pystr \<Rightarrow> int \<Rightarrow> int \<Rightarrow> int \<Rightarrow> pystr \<Rightarrow> pystr \<Rightarrow>
   (py_error + auth_result) \<times> files" where
  "guest_session cfg fs sid epoch now t_load ip ua =
     (if \<not> enable_guest_mode cfg then (Inr (AuthFailed (py ''Guest mode is disabled'')), fs)
      else
        (case timedelta_hours 2 of
           Inl e \<Rightarrow> (Inl e, fs)
         | Inr delta \<Rightarrow>
             (case datetime_add now delta of
                Inl e \<Rightarrow> (Inl e, fs)
              | Inr expires \<Rightarrow>
                  (let s = \<lparr>session_id = sid, s_user_id = guest_id epoch,
                            s_created_at = isoformat now, expires_at = isoformat expires,
                            last_active = isoformat now, ip_address = ip, user_agent = ua,
                            s_is_active = True\<rparr>;
                       fs1 = save_sessions fs (AList.update sid s (load_sessions fs t_load))
                   in (Inr (GuestSession sid (guest_user epoch) (isoformat expires)), fs1)))))"

subsection \<open>Route guard: require\_role\<close>





section \<open>Notions used to state the properties\<close>

text \<open>
  A stored session is live at \<open>now\<close> when its expiry parses, lies strictly after
  \<open>now\<close>, and its active flag is set: the test of \<open>cleanup_expired_sessions\<close>.
\<close>

definition live :: "int \<Rightarrow> session \<Rightarrow> bool" where
  "live now sd = (case expires_at sd of Iso t \<Rightarrow> now < t \<and> s_is_active sd | NotIso s \<Rightarrow> False)"

text \<open>The record kept under a token in the sessions file, as written (no clean-up).\<close>

definition stored_session :: "files \<Rightarrow> pystr \<Rightarrow> session option" where
  "stored_session fs sid =
     (case sessions_file fs of Holds (Mapping ss) \<Rightarrow> map_of ss sid | _ \<Rightarrow> None)"

text \<open>Expiry minus creation of a session, in microseconds, when both timestamps parse.\<close>

definition lifetime :: "session \<Rightarrow> int option" where
  "lifetime sd =
     (case (fromisoformat (expires_at sd), fromisoformat (s_created_at sd)) of
        (Inr e, Inr c) \<Rightarrow> Some (e - c)
      | _ \<Rightarrow> None)"

text \<open>One quarter of the configured session timeout, in microseconds.\<close>

definition quarter_of_timeout :: "config \<Rightarrow> int" where
  "quarter_of_timeout cfg = session_timeout_hours cfg * us_per_hour div 4"

text \<open>
  \<^verbatim>\<open>str.lower\<close> and \<^verbatim>\<open>str.casefold\<close> on strings of code points below 256, where both
  work code point by code point: the letters A to Z and U+00C0 to U+00DE (U+00D7, the
  multiplication sign, apart) move up by 32; case folding moreover turns U+00DF (sharp s)
  into \<open>ss\<close> and U+00B5 (micro sign) into U+03BC. Code points from 256 on are left as
  they are: the two functions are used at strings below 256 only.
\<close>

definition lower_cp :: "nat \<Rightarrow> nat" where
  "lower_cp c = (if (65 \<le> c \<and> c \<le> 90) \<or> (192 \<le> c \<and> c \<le> 222 \<and> c \<noteq> 215) then c + 32 else c)"

definition lower_latin1 :: "pystr \<Rightarrow> pystr" where
  "lower_latin1 s = map lower_cp s"







text \<open>
  The shape of \<^verbatim>\<open>str(uuid.uuid4())\<close>: 36 characters, each a lower-case
  hexadecimal digit or a hyphen.
\<close>

definition uuid_shaped :: "pystr \<Rightarrow> bool" where
  "uuid_shaped u = (length u = 36 \<and> list_all (\<lambda>c. c \<in> set (py ''0123456789abcdef-'')) u)"

subsection \<open>Concrete states used in the examples\<close>

text \<open>
  \<open>ex_now\<close> is 2026-11-04T12:00:00, whose Unix time is 1793793600;
  63929397600000000 is two hours later. \<open>ex_digest\<close> and \<open>ex_digest_wrong\<close> are what
  \<^verbatim>\<open>hashlib.sha256\<close> returns for \<^verbatim>\<open>hunter2s3cr3t\<close> and \<^verbatim>\<open>wrongs3cr3t\<close>. The email of
  \<open>ex_strasse_files\<close> is \<^verbatim>\<open>stra\<ss>e@example.com\<close>.
\<close>

definition ex_cfg :: config where
  "ex_cfg = default_config (py ''s3cr3t'')"

definition ex_now :: int where
  "ex_now = 63929390400000000"

definition no_files :: files where
  "no_files = \<lparr>users_file = Missing, sessions_file = Missing, config_file = Missing\<rparr>"

definition ex_guest :: session where
  "ex_guest =
     \<lparr>session_id = py ''tok'', s_user_id = py ''guest_1793793600'',
      s_created_at = Iso 63929390400000000, expires_at = Iso 63929397600000000,
      last_active = Iso 63929390400000000, ip_address = py ''127.0.0.1'',
      user_agent = py ''curl'', s_is_active = True\<rparr>"

definition ex_session :: "string \<Rightarrow> string \<Rightarrow> stamp \<Rightarrow> bool \<Rightarrow> session" where
  "ex_session sid uid expires active =
     \<lparr>session_id = py sid, s_user_id = py uid, s_created_at = Iso 63929390400000000,
      expires_at = expires, last_active = Iso 63929390400000000,
      ip_address = py ''127.0.0.1'', user_agent = py ''curl'', s_is_active = active\<rparr>"

definition ex_sessions :: sessions where
  "ex_sessions =
     [(py ''a'', ex_session ''a'' ''u1'' (Iso 63929397600000000) True),
      (py ''b'', ex_session ''b'' ''u1'' (Iso 63929390400000000) True),
      (py ''c'', ex_session ''c'' ''u1'' (Iso 63929397600000000) False),
      (py ''d'', ex_session ''d'' ''u1'' (NotIso (py ''tomorrow'')) True)]"

definition ex_digest :: pystr where
  "ex_digest = py ''4d5ec6507ff9f6afa2d0abcc87c679985b3e5dd3b0e273df1c9f482c9575d594''"


definition ex_user :: "pystr \<Rightarrow> pystr \<Rightarrow> pystr \<Rightarrow> pystr \<Rightarrow> bool \<Rightarrow> user" where
  "ex_user uid mail nm digest active =
     \<lparr>user_id = uid, email = mail, name = nm, role = py ''pm'',
      created_at = Iso 63929390400000000, last_login = NotIso [], is_active = active,
      preferences = default_preferences, password_hash = digest\<rparr>"

definition ex_files :: files where
  "ex_files =
     \<lparr>users_file =
        Holds (Mapping [(py ''u1'',
          ex_user (py ''u1'') (py ''Alice@Example.com'') (py ''Alice'') ex_digest True)]),
      sessions_file = Holds (Mapping ex_sessions), config_file = Corrupt\<rparr>"

definition ex_disabled_files :: files where
  "ex_disabled_files =
     \<lparr>users_file =
        Holds (Mapping [(py ''u2'',
          ex_user (py ''u2'') (py ''bob@example.com'') (py ''Bob'') ex_digest False)]),
      sessions_file = Missing, config_file = Missing\<rparr>"

definition ex_uuid :: pystr where
  "ex_uuid = py ''1b4e28ba-2fa1-41d2-883f-0016d3cca427''"

definition ex_uuid2 :: pystr where
  "ex_uuid2 = py ''6fa459ea-ee8a-4ca4-894e-db77e160355e''"

definition ex_alice_files :: files where
  "ex_alice_files =
     \<lparr>users_file =
        Holds (Mapping [(ex_uuid,
          ex_user ex_uuid (py ''alice@example.com'') (py ''Alice'') ex_digest True)]),
      sessions_file = Missing, config_file = Missing\<rparr>"

definition ex_strasse :: pystr where
  "ex_strasse = py ''stra'' @ [223] @ py ''e@example.com''"

definition ex_strasse_files :: files where
  "ex_strasse_files =
     \<lparr>users_file =
        Holds (Mapping [(ex_uuid, ex_user ex_uuid ex_strasse (py ''Strasser'') ex_digest True)]),
      sessions_file = Missing, config_file = Missing\<rparr>"


definition null_users_files :: files where
  "null_users_files =
     \<lparr>users_file = Holds (Other False), sessions_file = Missing, config_file = Missing\<rparr>"


section \<open>Auxiliary facts\<close>

lemma py_eq_iff [simp]: "py a = py b \<longleftrightarrow> a = b"
  by (simp add: py_def inj_map_eq_map inj_on_def)

lemma py_Nil_iff [simp]: "py a = [] \<longleftrightarrow> a = []" "[] = py a \<longleftrightarrow> a = []"
  by (auto simp: py_def)

lemma py_append: "py (a @ b) = py a @ py b"
  by (simp add: py_def)

lemma set_update_cases:
  "(a, b) \<in> set (AList.update k v al) \<Longrightarrow> (a, b) = (k, v) \<or> (a, b) \<in> set al"
  by (induction al) (auto split: if_splits)


lemma cleanup_loop_Cons:
  "cleanup_loop now acc ((k, sd) # rest) =
     (if live now sd then cleanup_loop now (AList.update k sd acc) rest
      else cleanup_loop now acc rest)"
  by (cases "expires_at sd") (simp_all add: live_def)

lemma cleanup_loop_mem:
  "(k, sd) \<in> set (cleanup_loop now acc xs) \<Longrightarrow>
     (k, sd) \<in> set acc \<or> ((k, sd) \<in> set xs \<and> live now sd)"
proof (induction xs arbitrary: acc)
  case Nil
  then show ?case by simp
next
  case (Cons x xs)
  obtain sid s where x: "x = (sid, s)" by (cases x)
  show ?case
  proof (cases "live now s")
    case True
    with Cons.prems x have "(k, sd) \<in> set (cleanup_loop now (AList.update sid s acc) xs)"
      by (simp add: cleanup_loop_Cons del: cleanup_loop.simps)
    from Cons.IH [OF this] show ?thesis
      using x True by (auto dest: set_update_cases)
  next
    case False
    with Cons.prems x have "(k, sd) \<in> set (cleanup_loop now acc xs)"
      by (simp add: cleanup_loop_Cons del: cleanup_loop.simps)
    from Cons.IH [OF this] show ?thesis by auto
  qed
qed

lemma load_sessions_cases:
  "load_sessions fs now =
     (case sessions_file fs of Holds (Mapping ss) \<Rightarrow> cleanup_loop now [] ss | _ \<Rightarrow> [])"
  by (simp add: load_sessions_def split: backing_file.splits json_value.splits)

lemma load_sessions_mem:
  assumes "(k, sd) \<in> set (load_sessions fs now)"
  shows "(\<exists>ss. sessions_file fs = Holds (Mapping ss) \<and> (k, sd) \<in> set ss) \<and> live now sd"
proof (cases "sessions_file fs")
  case (Holds v)
  show ?thesis
  proof (cases v)
    case (Mapping ss)
    with Holds assms have "(k, sd) \<in> set (cleanup_loop now [] ss)"
      by (simp add: load_sessions_cases)
    then have "(k, sd) \<in> set ss \<and> live now sd"
      by (auto dest: cleanup_loop_mem)
    with Holds Mapping show ?thesis by simp
  next
    case (Other b)
    with Holds assms show ?thesis by (simp add: load_sessions_cases)
  qed
qed (use assms in \<open>simp_all add: load_sessions_cases\<close>)




lemma load_users_save [simp]: "load_users (save_users fs us) = Mapping us"
  by (simp add: load_users_def save_users_def)

lemma load_users_save_sessions [simp]: "load_users (save_sessions fs ss) = load_users fs"
  by (simp add: load_users_def save_sessions_def)


lemma validate_not_loaded:
  "sid \<noteq> [] \<Longrightarrow> map_of (load_sessions fs t_load) sid = None \<Longrightarrow>
     validate_session cfg fs sid t_load t_check t_touch =
       (Inr (Invalid (py ''Session not found'')), fs)"
  by (simp add: validate_session_def)

lemma expired_not_loaded:
  assumes "\<And>sd. stored_session fs sid = Some sd \<Longrightarrow> \<not> live t_load sd"
    and "\<And>ss. sessions_file fs = Holds (Mapping ss) \<Longrightarrow> distinct (map fst ss)"
  shows "map_of (load_sessions fs t_load) sid = None"
proof (cases "map_of (load_sessions fs t_load) sid")
  case None
  then show ?thesis .
next
  case (Some sd)
  then have "(sid, sd) \<in> set (load_sessions fs t_load)" by (rule map_of_SomeD)
  then obtain ss where ss: "sessions_file fs = Holds (Mapping ss)" "(sid, sd) \<in> set ss"
    and l: "live t_load sd"
    by (auto dest: load_sessions_mem)
  with assms(2) have "map_of ss sid = Some sd" by simp
  with ss assms(1) l show ?thesis by (simp add: stored_session_def)
qed

lemma validate_at_or_after_expiry:
  assumes "sid \<noteq> []"
    and "stored_session fs sid = Some sd"
    and "expires_at sd = Iso e"
    and "e \<le> t_load"
    and "\<And>ss. sessions_file fs = Holds (Mapping ss) \<Longrightarrow> distinct (map fst ss)"
  shows "validate_session cfg fs sid t_load t_check t_touch =
     (Inr (Invalid (py ''Session not found'')), fs)"
proof -
  have "map_of (load_sessions fs t_load) sid = None"
  proof (rule expired_not_loaded)
    fix sd' assume "stored_session fs sid = Some sd'"
    with assms(2,3,4) show "\<not> live t_load sd'" by (simp add: live_def)
  qed (rule assms(5))
  with assms(1) show ?thesis by (rule validate_not_loaded)
qed

lemma find_update_new:
  "\<not> list_ex P us \<Longrightarrow> P (k, v) \<Longrightarrow> find P (AList.update k v us) = Some (k, v)"
  by (induction us) auto




lemma create_user_created:
  assumes "create_user lower cfg fs uid0 now e n pw r = (Inr (Created uid msg), fs1)"
  obtains us digest where "load_users fs = Mapping us"
    and "\<not> list_ex (email_matches lower e) us"
    and "hash_password cfg pw = Inr digest"
    and "uid = uid0"
    and "msg = py ''User '' @ n @ py '' created successfully''"
    and "fs1 = save_users fs (AList.update uid0
          \<lparr>user_id = uid0, email = e, name = n, role = r, created_at = isoformat now,
           last_login = NotIso [], is_active = True, preferences = default_preferences,
           password_hash = digest\<rparr> us)"
  using assms
  by (auto simp: create_user_def Let_def split: json_value.splits if_splits sum.splits)


text \<open>The outcomes of \<open>authenticate_user\<close> that write nothing.\<close>

lemma authenticate_non_object:
  "load_users fs = Other b \<Longrightarrow>
     authenticate_user lower cfg fs sid now t_load e pw ip ua = (Inl AttributeError, fs)"
  by (simp add: authenticate_user_def)

lemma authenticate_unknown:
  "load_users fs = Mapping us \<Longrightarrow> \<not> list_ex (email_matches lower e) us \<Longrightarrow>
     authenticate_user lower cfg fs sid now t_load e pw ip ua =
       (Inr (AuthFailed (py ''Invalid email or password'')), fs)"
proof -
  assume us: "load_users fs = Mapping us" and "\<not> list_ex (email_matches lower e) us"
  then have "find (email_matches lower e) us = None"
    by (simp add: find_None_iff list_ex_iff)
  with us show ?thesis by (simp add: authenticate_user_def)
qed

lemma authenticate_unencodable:
  "load_users fs = Mapping us \<Longrightarrow> find (email_matches lower e) us = Some (uid, u) \<Longrightarrow>
   hash_password cfg pw = Inl err \<Longrightarrow>
     authenticate_user lower cfg fs sid now t_load e pw ip ua = (Inl err, fs)"
  by (simp add: authenticate_user_def)



lemma email_matches_cong:
  "lower e' = lower e \<Longrightarrow> email_matches lower e' = email_matches lower e"
  by (simp add: email_matches_def fun_eq_iff)

lemma find_after_create:
  assumes "create_user lower cfg fs uid0 t0 e n pw r = (Inr (Created uid msg), fs1)"
    and "lower e' = lower e"
  obtains us1 u where "load_users fs1 = Mapping us1"
    and "find (email_matches lower e') us1 = Some (uid, u)"
    and "hash_password cfg pw = Inr (password_hash u)"
    and "user_id u = uid" and "email u = e" and "name u = n" and "role u = r"
    and "is_active u" and "preferences u = default_preferences"
proof -
  from assms(1) obtain us digest where us: "load_users fs = Mapping us"
    and no: "\<not> list_ex (email_matches lower e) us"
    and digest: "hash_password cfg pw = Inr digest"
    and uid: "uid = uid0"
    and fs1: "fs1 = save_users fs (AList.update uid0
          \<lparr>user_id = uid0, email = e, name = n, role = r, created_at = isoformat t0,
           last_login = NotIso [], is_active = True, preferences = default_preferences,
           password_hash = digest\<rparr> us)"
    by (rule create_user_created)
  define u where "u = \<lparr>user_id = uid0, email = e, name = n, role = r,
      created_at = isoformat t0, last_login = NotIso [], is_active = True,
      preferences = default_preferences, password_hash = digest\<rparr>"
  have "email_matches lower e (uid0, u)" by (simp add: email_matches_def u_def)
  with no have "find (email_matches lower e) (AList.update uid0 u us) = Some (uid0, u)"
    by (rule find_update_new)
  then have "find (email_matches lower e') (AList.update uid0 u us) = Some (uid, u)"
    using email_matches_cong [of lower e' e, OF assms(2)] by (simp add: uid)
  moreover have "load_users fs1 = Mapping (AList.update uid0 u us)"
    by (simp add: fs1 u_def)
  ultimately show ?thesis
    using digest uid by (intro that [of "AList.update uid0 u us" u]) (simp_all add: u_def)
qed



text \<open>The construction of the manager.\<close>

lemma users_file_load_auth_config [simp]:
  "users_file (snd (load_auth_config fs token)) = users_file fs"
  by (simp add: load_auth_config_def Let_def split: sum.splits)

lemma load_users_load_auth_config [simp]:
  "load_users (snd (load_auth_config fs token)) = load_users fs"
  by (simp add: load_users_def)

lemma init_manager_unfold:
  "init_manager fs token now =
     (case initialize_default_users (fst (load_auth_config fs token))
             (snd (load_auth_config fs token)) now of
        Inl e \<Rightarrow> (Inl e, snd (load_auth_config fs token))
      | Inr fs2 \<Rightarrow> (Inr (fst (load_auth_config fs token)), fs2))"
  by (cases "load_auth_config fs token") (simp add: init_manager_def split: sum.splits)

lemma init_manager_empty:
  assumes "load_users fs = Mapping []"
    and "hash_password (fst (load_auth_config fs token)) (py ''aipm2025'') = Inr digest"
  shows "fst (init_manager fs token now) = Inr (fst (load_auth_config fs token))"
    and "load_users (snd (init_manager fs token now)) =
      Mapping [(py ''default_pm'', default_user digest now)]"
  using assms by (simp_all add: init_manager_unfold initialize_default_users_def)

lemma init_manager_nonempty:
  assumes "load_users fs = Mapping us" and "us \<noteq> []"
  shows "fst (init_manager fs token now) = Inr (fst (load_auth_config fs token))"
    and "load_users (snd (init_manager fs token now)) = Mapping us"
    and "users_file (snd (init_manager fs token now)) = users_file fs"
  using assms by (simp_all add: init_manager_unfold initialize_default_users_def)

lemma init_manager_falsy_non_object:
  assumes "load_users fs = Other False"
    and "hash_password (fst (load_auth_config fs token)) (py ''aipm2025'') = Inr digest"
  shows "init_manager fs token now = (Inl TypeError, snd (load_auth_config fs token))"
  using assms by (simp add: init_manager_unfold initialize_default_users_def)

text \<open>
  The keys under which the manager stores users (\<open>default_pm\<close> and UUIDs) are never
  guest identifiers, and \<open>guest_session\<close> writes no user.
\<close>

lemma guest_id_head: "hd (guest_id epoch) = 103"
  by (simp add: guest_id_def py_def)

lemma uuid_not_guest_id: "uuid_shaped u \<Longrightarrow> u \<noteq> guest_id epoch"
proof
  assume u: "uuid_shaped u" and eq: "u = guest_id epoch"
  from u have "u \<noteq> []" by (auto simp: uuid_shaped_def)
  with u have "hd u \<in> set (py ''0123456789abcdef-'')"
    by (cases u) (simp_all add: uuid_shaped_def)
  with eq show False by (simp add: guest_id_head) (simp add: py_def)
qed

lemma default_pm_not_guest_id: "py ''default_pm'' \<noteq> guest_id epoch"
  by (simp add: guest_id_def py_def)

lemma create_user_no_guest_key:
  assumes "uuid_shaped uid0" and "load_users fs = Mapping us"
    and "map_of us (guest_id epoch) = None"
  shows "\<exists>us1. load_users (snd (create_user lower cfg fs uid0 now e n pw r)) = Mapping us1 \<and>
     map_of us1 (guest_id epoch) = None"
  using assms uuid_not_guest_id [of uid0 epoch]
  by (auto simp: create_user_def update_conv' Let_def split: sum.splits)

lemma init_manager_no_guest_key:
  assumes "load_users fs = Mapping us" and "map_of us (guest_id epoch) = None"
  shows "\<exists>us1. load_users (snd (init_manager fs token now)) = Mapping us1 \<and>
     map_of us1 (guest_id epoch) = None"
  using assms default_pm_not_guest_id [of epoch]
  by (auto simp: init_manager_unfold initialize_default_users_def update_conv' Let_def
        split: sum.splits)

lemma guest_session_keeps_users:
  "load_users (snd (guest_session cfg fs sid epoch now t_load ip ua)) = load_users fs"
  by (simp add: guest_session_def timedelta_hours_def datetime_add_def Let_def
        split: sum.splits)

text \<open>UTF-8: plain ASCII text encodes to itself, and the encoding is injective.\<close>

lemma encode_Nil [simp]: "encode [] = Inr []"
  by (simp add: encode_def)

lemma encode_py: "list_all (\<lambda>c. of_char c < (128 :: nat)) s \<Longrightarrow> encode (py s) = Inr s"
proof -
  assume a: "list_all (\<lambda>c. of_char c < (128 :: nat)) s"
  then have "list_all encodable (py s)"
    by (induction s) (simp_all add: py_def encodable_def)
  moreover from a have "concat (map utf8 (py s)) = s"
    by (induction s) (simp_all add: py_def utf8_def)
  ultimately show ?thesis by (simp add: encode_def)
qed

lemma utf8_not_Nil [simp]: "utf8 c \<noteq> []"
  by (simp add: utf8_def)








text \<open>The shape of a digest, and what \<open>hash_password\<close> returns.\<close>

lemma hex_digit_in: "hex_digit n \<in> set ''0123456789abcdef''"
proof -
  have "n AND 15 \<le> 15" by (rule word_and_le1)
  then have "unat (n AND 15) \<le> unat (15 :: w32)" by (simp only: word_le_nat_alt)
  then have "unat (n AND 15) < length ''0123456789abcdef''" by simp
  then show ?thesis unfolding hex_digit_def by (rule nth_mem)
qed

lemma hex32_props: "length (hex32 w) = 8" "set (hex32 w) \<subseteq> set ''0123456789abcdef''"
  using hex_digit_in by (auto simp: hex32_def simp del: set_simps)

lemma hexdigest_props:
  "length (hexdigest st) = 64" "set (hexdigest st) \<subseteq> set ''0123456789abcdef''"
proof -
  obtain a b c d e f g h where st: "st = (a, b, c, d, e, f, g, h)" by (cases st rule: hexdigest.cases)
  show "length (hexdigest st) = 64" by (simp add: st hex32_props(1))
  show "set (hexdigest st) \<subseteq> set ''0123456789abcdef''"
    using hex32_props(2) by (simp add: st del: set_simps)
qed

lemma sha256_props:
  "length (sha256 m) = 64" "set (sha256 m) \<subseteq> set ''0123456789abcdef''"
  by (simp_all add: sha256_def hexdigest_props del: set_simps)


lemma hash_password_unencodable:
  "\<not> list_all encodable pw \<Longrightarrow> hash_password cfg pw = Inl UnicodeEncodeError"
  by (simp add: hash_password_def encode_def)

lemma hash_password_ascii:
  assumes "secret_key cfg = py salt" and "list_all (\<lambda>c. of_char c < (128 :: nat)) (pw @ salt)"
  shows "hash_password cfg (py pw) = Inr (py (sha256 (pw @ salt)))"
  using encode_py [OF assms(2)] by (simp add: hash_password_def assms(1) py_append)



lemma authenticate_unencodable_password:
  assumes created: "create_user lower cfg fs uid0 t0 e n pw r = (Inr (Created uid msg), fs1)"
    and mail: "lower e' = lower e"
    and enc: "\<not> list_all encodable p"
  shows "authenticate_user lower cfg fs1 sid now t_load e' p ip ua = (Inl UnicodeEncodeError, fs1)"
proof -
  from created mail obtain us1 u where us1: "load_users fs1 = Mapping us1"
    and found: "find (email_matches lower e') us1 = Some (uid, u)"
    by (rule find_after_create)
  from enc have "hash_password cfg p = Inl UnicodeEncodeError" by (rule hash_password_unencodable)
  with us1 found show ?thesis by (rule authenticate_unencodable)
qed


text \<open>Runs of the model on the example states.\<close>

lemma guest_id_ex: "guest_id 1793793600 = py ''guest_1793793600''"
  by (simp add: guest_id_def str_int_def digits.simps py_def)

lemma ex_guest_run:
  "guest_session ex_cfg no_files (py ''tok'') 1793793600 ex_now ex_now (py ''127.0.0.1'')
       (py ''curl'') =
     (Inr (GuestSession (py ''tok'') (guest_user 1793793600) (Iso 63929397600000000)),
      no_files\<lparr>sessions_file := Holds (Mapping [(py ''tok'', ex_guest)])\<rparr>)"
  by (simp add: guest_session_def ex_cfg_def default_config_def no_files_def ex_now_def
        timedelta_hours_def datetime_add_def datetime_max_def us_per_hour_def isoformat_def
        load_sessions_def save_sessions_def ex_guest_def guest_id_ex)

lemma ex_load_sessions:
  "load_sessions ex_files ex_now =
     [(py ''a'', ex_session ''a'' ''u1'' (Iso 63929397600000000) True)]"
  by (simp add: load_sessions_def ex_files_def ex_sessions_def ex_session_def ex_now_def)

lemma ex_load_sessions_later:
  "load_sessions ex_files (ex_now + us_per_hour) =
     [(py ''a'', ex_session ''a'' ''u1'' (Iso 63929397600000000) True)]"
  by (simp add: load_sessions_def ex_files_def ex_sessions_def ex_session_def ex_now_def
        us_per_hour_def)

lemma validate_expired_between_reads:
  "validate_session ex_cfg ex_files (py ''a'') ex_now (63929397600000000 + 1)
       (63929397600000000 + 2) =
     (Inr (Invalid (py ''Session expired'')), ex_files\<lparr>sessions_file := Holds (Mapping [])\<rparr>)"
  by (simp add: validate_session_def ex_load_sessions save_sessions_def)
     (simp add: ex_session_def save_sessions_def)



text \<open>
  Two digests computed by the model, equal to what \<^verbatim>\<open>hashlib.sha256\<close> returns for
  \<^verbatim>\<open>hunter2s3cr3t\<close> and \<^verbatim>\<open>wrongs3cr3t\<close>.
\<close>

lemma sha256_hunter2:
  "sha256 ''hunter2s3cr3t'' = ''4d5ec6507ff9f6afa2d0abcc87c679985b3e5dd3b0e273df1c9f482c9575d594''"
  by code_simp


lemma ex_secret: "secret_key ex_cfg = py ''s3cr3t''"
  by (simp add: ex_cfg_def default_config_def)

lemma ex_hash_hunter2: "hash_password ex_cfg (py ''hunter2'') = Inr ex_digest"
  using hash_password_ascii [of ex_cfg "''s3cr3t''" "''hunter2''"]
  by (simp add: ex_secret sha256_hunter2 ex_digest_def)


lemma ex_hash_default: "\<exists>digest. hash_password ex_cfg (py ''aipm2025'') = Inr digest"
  using hash_password_ascii [of ex_cfg "''s3cr3t''" "''aipm2025''"]
  by (simp add: ex_secret)


lemma ex_hash_surrogate: "hash_password ex_cfg [0xD800] = Inl UnicodeEncodeError"
  by (simp add: hash_password_def encode_def encodable_def)


text \<open>
  Lower-casing and case folding of the example emails, as \<^verbatim>\<open>str.lower\<close> and
  \<^verbatim>\<open>str.casefold\<close> compute them.
\<close>

lemma ex_lower_alice:
  "lower_latin1 (py ''ALICE@EXAMPLE.COM'') = py ''alice@example.com''"
  "lower_latin1 (py ''Alice@Example.com'') = py ''alice@example.com''"
  "lower_latin1 (py ''alice@example.com'') = py ''alice@example.com''"
  "lower_latin1 (py ''carol@example.com'') = py ''carol@example.com''"
  "lower_latin1 (py ''bob@example.com'') = py ''bob@example.com''"
  "lower_latin1 (py ''nobody@example.com'') = py ''nobody@example.com''"
  by (simp_all add: lower_latin1_def lower_cp_def py_def)



lemma ex_uuid_shaped: "uuid_shaped ex_uuid" "uuid_shaped ex_uuid2"
  by (simp_all add: uuid_shaped_def ex_uuid_def ex_uuid2_def py_def)


text \<open>The users held by the example files.\<close>

lemma ex_users:
  "load_users no_files = Mapping []"
  "load_users ex_files =
     Mapping [(py ''u1'',
       ex_user (py ''u1'') (py ''Alice@Example.com'') (py ''Alice'') ex_digest True)]"
  "load_users ex_disabled_files =
     Mapping [(py ''u2'', ex_user (py ''u2'') (py ''bob@example.com'') (py ''Bob'') ex_digest False)]"
  "load_users ex_alice_files =
     Mapping [(ex_uuid, ex_user ex_uuid (py ''alice@example.com'') (py ''Alice'') ex_digest True)]"
  "load_users ex_strasse_files =
     Mapping [(ex_uuid, ex_user ex_uuid ex_strasse (py ''Strasser'') ex_digest True)]"
  "load_users null_users_files = Other False"
  by (simp_all add: load_users_def no_files_def ex_files_def ex_disabled_files_def
        ex_alice_files_def ex_strasse_files_def null_users_files_def)

lemma ex_user_fields [simp]:
  "email (ex_user uid mail nm digest active) = mail"
  "password_hash (ex_user uid mail nm digest active) = digest"
  "is_active (ex_user uid mail nm digest active) = active"
  "user_id (ex_user uid mail nm digest active) = uid"
  by (simp_all add: ex_user_def)



lemma ex_disabled_find:
  "find (email_matches lower_latin1 (py ''bob@example.com''))
       [(py ''u2'', ex_user (py ''u2'') (py ''bob@example.com'') (py ''Bob'') ex_digest False)] =
     Some (py ''u2'', ex_user (py ''u2'') (py ''bob@example.com'') (py ''Bob'') ex_digest False)"
  by (simp add: email_matches_def)

lemma ex_disabled_unknown:
  "\<not> list_ex (email_matches lower_latin1 (py ''nobody@example.com''))
       [(py ''u2'', ex_user (py ''u2'') (py ''bob@example.com'') (py ''Bob'') ex_digest False)]"
  by (simp add: email_matches_def ex_lower_alice)


text \<open>
  With a configured timeout of 100000000 hours the expiry lies after year 9999: the
  login of a user with the right password raises \<^verbatim>\<open>OverflowError\<close> and writes nothing.
\<close>

lemma ex_authenticate_overflow:
  "authenticate_user lower_latin1 (ex_cfg\<lparr>session_timeout_hours := 100000000\<rparr>) ex_alice_files
       (py ''tok'') ex_now ex_now (py ''alice@example.com'') (py ''hunter2'') (py ''127.0.0.1'')
       (py ''curl'') =
     (Inl OverflowError, ex_alice_files)"
proof -
  have "hash_password (ex_cfg\<lparr>session_timeout_hours := 100000000\<rparr>) (py ''hunter2'') =
      Inr ex_digest"
    using ex_hash_hunter2 by (simp add: hash_password_def)
  then show ?thesis
    by (simp add: authenticate_user_def ex_users email_matches_def)
       (simp add: timedelta_hours_def datetime_add_def datetime_max_def us_per_hour_def
          ex_now_def)
qed

text \<open>
  Further runs: a login with a password that is a lone surrogate, and two
  \<open>create_user\<close> calls in a row.
\<close>

lemma ex_authenticate_surrogate:
  "authenticate_user lower_latin1 ex_cfg ex_disabled_files (py ''tok'') ex_now ex_now
     (py ''bob@example.com'') [0xD800] (py ''127.0.0.1'') (py ''curl'') =
     (Inl UnicodeEncodeError, ex_disabled_files) \<and>
   authenticate_user lower_latin1 ex_cfg ex_disabled_files (py ''tok'') ex_now ex_now
     (py ''nobody@example.com'') [0xD800] (py ''127.0.0.1'') (py ''curl'') =
     (Inr (AuthFailed (py ''Invalid email or password'')), ex_disabled_files)"
  using authenticate_unencodable [OF ex_users(3) ex_disabled_find ex_hash_surrogate]
    authenticate_unknown [OF ex_users(3) ex_disabled_unknown]
  by simp





text \<open>
  Over a users file holding a JSON value that is no object, \<open>validate_session\<close> raises
  at \<^verbatim>\<open>users.get\<close> for a session that is found and not expired.
\<close>

lemma validate_non_object:
  assumes "sid \<noteq> []" and "map_of (load_sessions fs t_load) sid = Some sd"
    and "expires_at sd = Iso x" and "t_check \<le> x" and "load_users fs = Other b"
  shows "fst (validate_session cfg fs sid t_load t_check t_touch) = Inl AttributeError"
  using assms by (simp add: validate_session_def Let_def)

text \<open>
  Construction over a users file that is absent, unparsable or an object: the default
  account is written exactly when no record is there.
\<close>

lemma init_manager_provisions:
  assumes "load_users fs = Mapping us"
    and "hash_password (fst (load_auth_config fs token)) (py ''aipm2025'') = Inr digest"
  shows "us = [] \<longrightarrow>
      fst (init_manager fs token now) = Inr (fst (load_auth_config fs token)) \<and>
      (\<exists>u. load_users (snd (init_manager fs token now)) = Mapping [(py ''default_pm'', u)] \<and>
           user_id u = py ''default_pm'' \<and> email u = py ''pm@aipmtoolkit.local'' \<and>
           role u = py ''pm'' \<and> is_active u \<and> password_hash u = digest)"
    and "us \<noteq> [] \<longrightarrow>
      fst (init_manager fs token now) = Inr (fst (load_auth_config fs token)) \<and>
      load_users (snd (init_manager fs token now)) = Mapping us \<and>
      users_file (snd (init_manager fs token now)) = users_file fs"
  using assms init_manager_empty [of fs token digest now] init_manager_nonempty [of fs us token now]
  by (auto simp: default_user_def)

lemma ex_load_auth_config:
  "load_auth_config null_users_files (py ''s3cr3t'') =
     (ex_cfg, null_users_files\<lparr>config_file := Holds (dump_config ex_cfg)\<rparr>)"
  by (simp add: load_auth_config_def null_users_files_def ex_cfg_def Let_def)

section \<open>Properties\<close>

subsection \<open>C1: lifetime of a guest session\<close>

text \<open>
  C1 (as amended). For every guest session successfully created by \<open>guest_session\<close>, the
  stored session's expiry timestamp minus its creation timestamp equals exactly two hours,
  for every value of \<open>session_timeout_hours\<close> (and of every other configuration setting):
  the session kept under the returned token was created at \<open>now\<close>, expires at the
  returned \<open>expires_at\<close>, and its lifetime is \<open>2 * us_per_hour\<close>.
\<close>

theorem guest_lifetime_two_hours:
  assumes "guest_session cfg fs sid epoch now t_load ip ua = (Inr (GuestSession sid' pu exp), fs')"
  shows "\<exists>sd. stored_session fs' sid' = Some sd \<and> s_created_at sd = Iso now \<and>
          expires_at sd = exp \<and> lifetime sd = Some (2 * us_per_hour)"
proof -
  define s where "s = \<lparr>session_id = sid, s_user_id = guest_id epoch,
       s_created_at = isoformat now, expires_at = isoformat (now + 2 * us_per_hour),
       last_active = isoformat now, ip_address = ip, user_agent = ua, s_is_active = True\<rparr>"
  from assms have "sid' = sid" and "exp = Iso (now + 2 * us_per_hour)"
    and "fs' = save_sessions fs (AList.update sid s (load_sessions fs t_load))"
    by (auto simp: guest_session_def timedelta_hours_def datetime_add_def isoformat_def
          Let_def s_def split: if_splits)
  then have "stored_session fs' sid' = Some s"
    by (simp add: stored_session_def save_sessions_def update_conv')
  moreover have "s_created_at s = Iso now" "expires_at s = Iso (now + 2 * us_per_hour)"
    "lifetime s = Some (2 * us_per_hour)"
    by (simp_all add: s_def isoformat_def lifetime_def)
  ultimately show ?thesis
    using \<open>exp = Iso (now + 2 * us_per_hour)\<close> by simp
qed

theorem guest_lifetime_two_hours_witness:
  "\<exists>sd. stored_session (no_files\<lparr>sessions_file := Holds (Mapping [(py ''tok'', ex_guest)])\<rparr>)
          (py ''tok'') = Some sd \<and>
        s_created_at sd = Iso ex_now \<and> expires_at sd = Iso 63929397600000000 \<and>
        lifetime sd = Some (2 * us_per_hour)"
  using guest_lifetime_two_hours [OF ex_guest_run] .

text \<open>
  With the default configuration (\<open>session_timeout_hours = 24\<close>) a guest session lives
  7200000000 microseconds (two hours), whereas one quarter of the configured timeout is
  21600000000 microseconds (six hours).
\<close>

theorem guest_lifetime_not_quarter:
  "guest_session ex_cfg no_files (py ''tok'') 1793793600 ex_now ex_now (py ''127.0.0.1'')
       (py ''curl'') =
     (Inr (GuestSession (py ''tok'') (guest_user 1793793600) (Iso 63929397600000000)),
      no_files\<lparr>sessions_file := Holds (Mapping [(py ''tok'', ex_guest)])\<rparr>) \<and>
   stored_session (no_files\<lparr>sessions_file := Holds (Mapping [(py ''tok'', ex_guest)])\<rparr>)
     (py ''tok'') = Some ex_guest \<and>
   session_timeout_hours ex_cfg = 24 \<and>
   lifetime ex_guest = Some 7200000000 \<and>
   quarter_of_timeout ex_cfg = 21600000000 \<and>
   lifetime ex_guest \<noteq> Some (quarter_of_timeout ex_cfg)"
  by (simp add: ex_guest_run)
     (simp add: stored_session_def lifetime_def ex_guest_def quarter_of_timeout_def ex_cfg_def
        default_config_def us_per_hour_def)

subsection \<open>C2: validating a session at or after its expiry\<close>

text \<open>
  C2. The claim asks that \<open>validate_session\<close>, called at a time at or after the expiry of
  a stored session, fail with the reason \<open>Session expired\<close>. The code does not do so:
  \<open>load_sessions\<close> has dropped the record before \<open>validate_session\<close> looks it up
  (lemma \<open>validate_at_or_after_expiry\<close>), so the reason is \<open>Session not found\<close> and the
  sessions file is left as it was. The session \<open>b\<close> of \<open>ex_files\<close> expires at
  \<open>ex_now\<close>; validated at \<open>ex_now\<close> and one hour later, with all three clock readings
  equal, it is reported as not found. The branch that answers \<open>Session expired\<close> is
  reached only when the clock passes the expiry between the load and the comparison
  (lemma \<open>validate_expired_between_reads\<close>).
\<close>

theorem validate_expired_reports_not_found:
  "stored_session ex_files (py ''b'') = Some (ex_session ''b'' ''u1'' (Iso ex_now) True) \<and>
   validate_session ex_cfg ex_files (py ''b'') ex_now ex_now ex_now =
     (Inr (Invalid (py ''Session not found'')), ex_files) \<and>
   validate_session ex_cfg ex_files (py ''b'')
     (ex_now + us_per_hour) (ex_now + us_per_hour) (ex_now + us_per_hour) =
     (Inr (Invalid (py ''Session not found'')), ex_files)"
proof -
  have "stored_session ex_files (py ''b'') = Some (ex_session ''b'' ''u1'' (Iso ex_now) True)"
    by (simp add: stored_session_def ex_files_def ex_sessions_def ex_now_def)
  moreover have "validate_session ex_cfg ex_files (py ''b'') ex_now ex_now ex_now =
     (Inr (Invalid (py ''Session not found'')), ex_files)"
    by (rule validate_not_loaded) (simp_all add: ex_load_sessions)
  moreover have "validate_session ex_cfg ex_files (py ''b'')
     (ex_now + us_per_hour) (ex_now + us_per_hour) (ex_now + us_per_hour) =
     (Inr (Invalid (py ''Session not found'')), ex_files)"
    by (rule validate_not_loaded) (simp_all add: ex_load_sessions_later)
  ultimately show ?thesis by simp
qed

subsection \<open>C3: the messages of a failed login\<close>




subsection \<open>C4: one record per email\<close>




subsection \<open>C5: password round trip\<close>




subsection \<open>C6: a load of the sessions returns live sessions only\<close>



subsection \<open>C7: the role-minimum check\<close>


subsection \<open>C8: loading an absent or unparsable file\<close>

text \<open>
  C8. Whatever the backing files are, loading the user collection or the session
  collection returns the empty mapping when the backing file is absent or unparsable. The
  exception that \<open>json_load\<close> raises is the \<open>Inl\<close> branch handled inside
  \<open>load_users\<close> and \<open>load_sessions\<close>, whose result types have no exception: nothing
  reaches the caller.
\<close>

theorem load_absent_or_unparsable:
  "(users_file fs \<in> {Missing, Corrupt} \<longrightarrow> load_users fs = Mapping []) \<and>
   (sessions_file fs \<in> {Missing, Corrupt} \<longrightarrow> load_sessions fs now = [])"
  by (auto simp: load_users_def load_sessions_def)

theorem load_absent_or_unparsable_witness:
  "users_file (no_files\<lparr>sessions_file := Corrupt\<rparr>) \<in> {Missing, Corrupt} \<and>
   load_users (no_files\<lparr>sessions_file := Corrupt\<rparr>) = Mapping [] \<and>
   sessions_file (no_files\<lparr>sessions_file := Corrupt\<rparr>) \<in> {Missing, Corrupt} \<and>
   load_sessions (no_files\<lparr>sessions_file := Corrupt\<rparr>) ex_now = []"
  using load_absent_or_unparsable [of "no_files\<lparr>sessions_file := Corrupt\<rparr>" ex_now]
  by (simp add: no_files_def)

subsection \<open>C9: the default account\<close>

text \<open>
  C9. The claim asks that a manager constructed over a state with no user record
  provision the default account. Over a users file that is absent, unparsable or an
  empty object the code does so, and over a non-empty object it adds nothing (lemma
  \<open>init_manager_provisions\<close>). Over a users file holding \<^verbatim>\<open>null\<close> (likewise \<^verbatim>\<open>[]\<close>,
  \<^verbatim>\<open>0\<close>, \<^verbatim>\<open>""\<close> or \<^verbatim>\<open>false\<close>), a state with no user record, it does not:
  \<open>load_users\<close> hands the value on as it is, the test \<^verbatim>\<open>if not users\<close> passes, and the
  item assignment raises \<^verbatim>\<open>TypeError\<close>. The construction ends with that exception, and
  the users file still holds \<^verbatim>\<open>null\<close>: no account has been provisioned. The loader of
  the sessions recovers from the same kind of file, because its clean-up runs inside
  the \<^verbatim>\<open>try\<close> block (\<open>load_sessions\<close> returns the empty mapping).
\<close>

theorem init_manager_null_users:
  "users_file null_users_files = Holds (Other False) \<and>
   load_users null_users_files = Other False \<and>
   init_manager null_users_files (py ''s3cr3t'') ex_now =
     (Inl TypeError, null_users_files\<lparr>config_file := Holds (dump_config ex_cfg)\<rparr>) \<and>
   users_file (snd (init_manager null_users_files (py ''s3cr3t'') ex_now)) =
     Holds (Other False) \<and>
   load_sessions (null_users_files\<lparr>sessions_file := Holds (Other False)\<rparr>) ex_now = []"
proof -
  obtain digest where "hash_password ex_cfg (py ''aipm2025'') = Inr digest"
    using ex_hash_default ..
  then have "hash_password (fst (load_auth_config null_users_files (py ''s3cr3t'')))
      (py ''aipm2025'') = Inr digest"
    by (simp add: ex_load_auth_config)
  with ex_users(6)
  have "init_manager null_users_files (py ''s3cr3t'') ex_now =
      (Inl TypeError, snd (load_auth_config null_users_files (py ''s3cr3t'')))"
    by (rule init_manager_falsy_non_object)
  then have run: "init_manager null_users_files (py ''s3cr3t'') ex_now =
      (Inl TypeError, null_users_files\<lparr>config_file := Holds (dump_config ex_cfg)\<rparr>)"
    by (simp add: ex_load_auth_config)
  have "users_file null_users_files = Holds (Other False)"
    by (simp add: null_users_files_def)
  moreover have "load_sessions (null_users_files\<lparr>sessions_file := Holds (Other False)\<rparr>)
      ex_now = []"
    by (simp add: load_sessions_def)
  ultimately show ?thesis using run ex_users(6) by simp
qed

subsection \<open>C10: a guest session never validates\<close>



end
